theory Spec2Isabelle
  imports Complex_Main "HOL-Library.AList"
begin

section \<open>Values, strings and errors\<close>

text \<open>
  The MCQ routes of \<^verbatim>\<open>src/mcq_analysis.py\<close> work on the values of a decoded JSON body.
  Strings are ASCII strings; a JSON object is an association list searched with
  \<^const>\<open>map_of\<close>, that is, a Python \<^verbatim>\<open>dict\<close> whose keys are pairwise different.
\<close>

datatype json =
    JNull
  | JBool bool
  | JInt int
  | JFloat real
  | JStr string
  | JList "json list"
  | JDict "(string \<times> json) list"

text \<open>
  An entry of the answer key is either a structured record (a \<^verbatim>\<open>dict\<close>) or a raw
  scalar, which the scorer passes through \<^verbatim>\<open>str\<close>. Raw entries whose \<^verbatim>\<open>str\<close> is a
  Python \<^verbatim>\<open>repr\<close> (floats, nested lists) are left out of the model.
\<close>

datatype key_entry =
    KDict "(string \<times> json) list"
  | KStr string
  | KInt int
  | KBool bool
  | KNone

text \<open>Exceptions carry the text that \<^verbatim>\<open>str(e)\<close> yields.\<close>

datatype py_error =
    AttributeError string
  | TypeError string
  | ZeroDivisionError string
  | ValueError string

fun str_error :: "py_error \<Rightarrow> string" where
  "str_error (AttributeError m) = m"
| "str_error (TypeError m) = m"
| "str_error (ZeroDivisionError m) = m"
| "str_error (ValueError m) = m"

fun type_name :: "json \<Rightarrow> string" where
  "type_name JNull = ''NoneType''"
| "type_name (JBool b) = ''bool''"
| "type_name (JInt n) = ''int''"
| "type_name (JFloat x) = ''float''"
| "type_name (JStr s) = ''str''"
| "type_name (JList xs) = ''list''"
| "type_name (JDict d) = ''dict''"

definition quoted :: "string \<Rightarrow> string" where
  "quoted s = CHR 0x27 # s @ [CHR 0x27]"

definition no_attribute :: "string \<Rightarrow> string \<Rightarrow> py_error" where
  "no_attribute ty attr =
     AttributeError (quoted ty @ '' object has no attribute '' @ quoted attr)"

definition no_len :: "string \<Rightarrow> py_error" where
  "no_len ty = TypeError (''object of type '' @ quoted ty @ '' has no len()'')"

subsection \<open>\<^verbatim>\<open>str.upper\<close>, \<^verbatim>\<open>str.lower\<close> and \<^verbatim>\<open>str\<close> of an integer\<close>

definition ascii_lowercase :: string where
  "ascii_lowercase = ''abcdefghijklmnopqrstuvwxyz''"

definition ascii_uppercase :: string where
  "ascii_uppercase = ''ABCDEFGHIJKLMNOPQRSTUVWXYZ''"

definition upper_char :: "char \<Rightarrow> char" where
  "upper_char c =
     (case map_of (zip ascii_lowercase ascii_uppercase) c of Some u \<Rightarrow> u | None \<Rightarrow> c)"

definition lower_char :: "char \<Rightarrow> char" where
  "lower_char c =
     (case map_of (zip ascii_uppercase ascii_lowercase) c of Some l \<Rightarrow> l | None \<Rightarrow> c)"

definition upper :: "string \<Rightarrow> string" where
  "upper s = map upper_char s"

definition lower :: "string \<Rightarrow> string" where
  "lower s = map lower_char s"

definition digit_char :: "nat \<Rightarrow> char" where
  "digit_char d = ''0123456789'' ! d"

fun str_nat :: "nat \<Rightarrow> string" where
  "str_nat n = (if n < 10 then [digit_char n] else str_nat (n div 10) @ [digit_char (n mod 10)])"

declare str_nat.simps [simp del]

definition str_int :: "int \<Rightarrow> string" where
  "str_int i = (if i < 0 then CHR ''-'' # str_nat (nat (- i)) else str_nat (nat i))"

text \<open>The method call \<^verbatim>\<open>v.upper()\<close>: only a \<^verbatim>\<open>str\<close> has the method.\<close>

fun py_upper :: "json \<Rightarrow> py_error + string" where
  "py_upper (JStr s) = Inr (upper s)"
| "py_upper v = Inl (no_attribute (type_name v) ''upper'')"

subsection \<open>Numbers\<close>

text \<open>
  A Python \<^verbatim>\<open>float\<close> is modelled by the real number it stands for and every arithmetic
  operation is exact: the rounding of binary floating point is outside the model.
  \<^verbatim>\<open>round(x, 2)\<close> rounds to two decimals, a tie going to the even neighbour.
\<close>

definition round_half_even :: "real \<Rightarrow> int" where
  "round_half_even x =
     (let f = \<lfloor>x\<rfloor>; d = x - of_int f
      in if d < 1 / 2 then f else if 1 / 2 < d then f + 1 else if even f then f else f + 1)"

definition round2 :: "real \<Rightarrow> real" where
  "round2 x = of_int (round_half_even (x * 100)) / 100"

text \<open>True division \<^verbatim>\<open>a / b\<close>, which raises on a zero divisor.\<close>

definition py_truediv :: "real \<Rightarrow> real \<Rightarrow> py_error + real" where
  "py_truediv a b = (if b = 0 then Inl (ZeroDivisionError ''division by zero'') else Inr (a / b))"

section \<open>Grade Calculator\<close>

definition calculate_grade :: "real \<Rightarrow> string" where
  "calculate_grade percentage =
     (if percentage \<ge> 90 then ''A+''
      else if percentage \<ge> 85 then ''A''
      else if percentage \<ge> 80 then ''A-''
      else if percentage \<ge> 75 then ''B+''
      else if percentage \<ge> 70 then ''B''
      else if percentage \<ge> 65 then ''B-''
      else if percentage \<ge> 60 then ''C+''
      else if percentage \<ge> 55 then ''C''
      else if percentage \<ge> 50 then ''C-''
      else if percentage \<ge> 45 then ''D''
      else ''F'')"

text \<open>
  The specification's reading of the grade scale: a table of lower bounds in descending
  order, the grade being that of the first bound the percentage reaches, and F when it
  reaches none.
\<close>

definition grade_thresholds :: "(real \<times> string) list" where
  "grade_thresholds =
     [(90, ''A+''), (85, ''A''), (80, ''A-''), (75, ''B+''), (70, ''B''), (65, ''B-''),
      (60, ''C+''), (55, ''C''), (50, ''C-''), (45, ''D'')]"

fun first_reached :: "(real \<times> string) list \<Rightarrow> real \<Rightarrow> string" where
  "first_reached [] p = ''F''"
| "first_reached ((bound, g) # rest) p = (if bound \<le> p then g else first_reached rest p)"

section \<open>Sheet Scorer\<close>

datatype verdict_type = Unanswered | Incorrect

record verdict =
  question_number :: nat
  type :: verdict_type
  student_answer :: string
  correct_answer :: string
  explanation :: string

record sheet_result =
  student_id :: nat
  score :: nat
  total_questions :: nat
  score_percentage :: real
  correct_answers :: nat
  wrong_answers :: nat
  unanswered :: nat
  mistakes :: "verdict list"
  grade :: string

text \<open>
  Line 138: the student's answer to the question at 0-based position \<open>i\<close>. A \<^verbatim>\<open>dict\<close>
  is looked up under \<^verbatim>\<open>str(i + 1)\<close> with default \<^verbatim>\<open>''\<close>; anything else is indexed when
  \<^verbatim>\<open>i < len(student_answers)\<close>, which raises for a value without a length and takes
  the \<open>i\<close>-th character of a string.
\<close>

fun extract_student_answer :: "json \<Rightarrow> nat \<Rightarrow> py_error + string" where
  "extract_student_answer (JDict d) i =
     py_upper (case map_of d (str_nat (i + 1)) of None \<Rightarrow> JStr '''' | Some v \<Rightarrow> v)"
| "extract_student_answer (JList xs) i =
     (if i < length xs then py_upper (xs ! i) else Inr '''')"
| "extract_student_answer (JStr s) i =
     (if i < length s then py_upper (JStr [s ! i]) else Inr '''')"
| "extract_student_answer v i = Inl (no_len (type_name v))"

text \<open>
  Line 139: the correct answer of a key entry. A \<^verbatim>\<open>dict\<close> without the field
  \<^verbatim>\<open>correct_answer\<close> yields itself as the default, and a \<^verbatim>\<open>dict\<close> has no \<^verbatim>\<open>upper\<close>.
\<close>

fun extract_correct :: "key_entry \<Rightarrow> py_error + string" where
  "extract_correct (KDict d) =
     py_upper (case map_of d ''correct_answer'' of None \<Rightarrow> JDict d | Some v \<Rightarrow> v)"
| "extract_correct (KStr s) = Inr (upper s)"
| "extract_correct (KInt n) = Inr (upper (str_int n))"
| "extract_correct (KBool b) = Inr (upper (if b then ''True'' else ''False''))"
| "extract_correct KNone = Inr (upper ''None'')"

definition unanswered_verdict :: "nat \<Rightarrow> string \<Rightarrow> verdict" where
  "unanswered_verdict question_num correct =
     \<lparr>question_number = question_num, type = Unanswered, student_answer = '''',
      correct_answer = correct,
      explanation = ''Question '' @ str_nat question_num @ '' was not answered''\<rparr>"

definition incorrect_verdict :: "nat \<Rightarrow> string \<Rightarrow> string \<Rightarrow> verdict" where
  "incorrect_verdict question_num student correct =
     \<lparr>question_number = question_num, type = Incorrect, student_answer = student,
      correct_answer = correct,
      explanation = ''Question '' @ str_nat question_num @ '': Selected '' @ student
        @ '', correct answer is '' @ correct\<rparr>"

text \<open>
  The loop of lines 136 to 160 over \<^verbatim>\<open>enumerate(answer_key)\<close>, a list of pairs of an
  index and a key entry. The state is the four accumulators \<^verbatim>\<open>correct_answers\<close>,
  \<^verbatim>\<open>wrong_answers\<close>, \<^verbatim>\<open>unanswered\<close> and \<^verbatim>\<open>mistakes\<close>. An exception leaves the loop
  and the function.
\<close>

fun score_loop ::
  "json \<Rightarrow> (nat \<times> key_entry) list \<Rightarrow> nat \<times> nat \<times> nat \<times> verdict list
     \<Rightarrow> py_error + (nat \<times> nat \<times> nat \<times> verdict list)" where
  "score_loop student_answers [] acc = Inr acc"
| "score_loop student_answers ((i, k) # rest) (c, w, u, ms) =
     (let question_num = i + 1 in
      case extract_student_answer student_answers i of
        Inl e \<Rightarrow> Inl e
      | Inr student \<Rightarrow>
          (case extract_correct k of
             Inl e \<Rightarrow> Inl e
           | Inr correct \<Rightarrow>
               if student = '''' then
                 score_loop student_answers rest
                   (c, w, u + 1, ms @ [unanswered_verdict question_num correct])
               else if student = correct then
                 score_loop student_answers rest (c + 1, w, u, ms)
               else
                 score_loop student_answers rest
                   (c, w + 1, u, ms @ [incorrect_verdict question_num student correct])))"

definition analyze_single_mcq_sheet ::
  "json \<Rightarrow> key_entry list \<Rightarrow> nat \<Rightarrow> py_error + sheet_result" where
  "analyze_single_mcq_sheet student_answers answer_key sid =
     (case score_loop student_answers (enumerate 0 answer_key) (0, 0, 0, []) of
        Inl e \<Rightarrow> Inl e
      | Inr (c, w, u, ms) \<Rightarrow>
          (let total = length answer_key;
               percentage = (if total > 0 then (real c / real total) * 100 else 0)
           in Inr \<lparr>student_id = sid, score = c, total_questions = total,
                    score_percentage = round2 percentage, correct_answers = c,
                    wrong_answers = w, unanswered = u, mistakes = ms,
                    grade = calculate_grade percentage\<rparr>))"

section \<open>Batch Aggregator\<close>

text \<open>
  An element of \<^verbatim>\<open>results\<close> is either the dictionary returned by the scorer or the error
  entry of lines 107 to 112, \<^verbatim>\<open>{student_id, error, score, total_questions}\<close>, which has a
  score and no grade.
\<close>

datatype result =
    SheetResult sheet_result
  | ErrorEntry nat string nat nat

text \<open>\<^verbatim>\<open>result.get('score', 0)\<close> and \<^verbatim>\<open>result.get('grade', 'F')\<close>.\<close>

fun get_score :: "result \<Rightarrow> nat" where
  "get_score (SheetResult r) = score r"
| "get_score (ErrorEntry sid err sc tq) = sc"

fun get_grade :: "result \<Rightarrow> string" where
  "get_grade (SheetResult r) = grade r"
| "get_grade (ErrorEntry sid err sc tq) = ''F''"

record question_stat =
  question_number :: nat
  correct_responses :: nat
  incorrect_responses :: int
  success_rate :: real
  difficulty :: string

record batch_summary =
  total_students :: nat
  total_questions :: nat
  average_score :: real
  average_percentage :: real
  highest_score :: nat
  lowest_score :: nat
  grade_distribution :: "(string \<times> nat) list"
  question_analysis :: "question_stat list"

text \<open>The function returns the empty dictionary or a dictionary with all eight fields.\<close>

datatype summary = Empty | Summary batch_summary

definition on_value :: "py_error + 'a \<Rightarrow> ('a \<Rightarrow> py_error + 'b) \<Rightarrow> py_error + 'b" where
  "on_value m f = (case m of Inl e \<Rightarrow> Inl e | Inr x \<Rightarrow> f x)"

text \<open>
  Lines 191 to 194. The dictionary keeps its keys in insertion order, which is what
  \<^const>\<open>AList.update\<close> does: a known key keeps its place, a new one goes to the end.
\<close>

fun grade_loop :: "result list \<Rightarrow> (string \<times> nat) list \<Rightarrow> (string \<times> nat) list" where
  "grade_loop [] gd = gd"
| "grade_loop (r # rest) gd =
     (let g = get_grade r
      in grade_loop rest
           (AList.update g ((case map_of gd g of None \<Rightarrow> 0 | Some n \<Rightarrow> n) + 1) gd))"

text \<open>Lines 202 to 204, the inner loop for question index \<open>i\<close>.\<close>

fun count_loop :: "result list \<Rightarrow> nat \<Rightarrow> nat \<Rightarrow> nat" where
  "count_loop [] i correct_count = correct_count"
| "count_loop (r # rest) i correct_count =
     count_loop rest i (if get_score r > i then correct_count + 1 else correct_count)"

text \<open>
  Lines 198 to 214 over \<^verbatim>\<open>range(total_questions)\<close>. The three divisions by
  \<^verbatim>\<open>total_students\<close> are not guarded in the source, so each of them may raise here.
\<close>

fun question_loop ::
  "result list \<Rightarrow> nat \<Rightarrow> nat list \<Rightarrow> question_stat list \<Rightarrow> py_error + question_stat list" where
  "question_loop results nstudents [] qa = Inr qa"
| "question_loop results nstudents (i # rest) qa =
     (let question_num = i + 1;
          correct_count = count_loop results i 0
      in on_value (py_truediv (real correct_count) (real nstudents)) (\<lambda>ratio1.
         on_value (if ratio1 > 0.8 then Inr ''Easy''
                   else on_value (py_truediv (real correct_count) (real nstudents)) (\<lambda>ratio2.
                        Inr (if ratio2 > 0.5 then ''Medium'' else ''Hard''))) (\<lambda>difficulty.
         on_value (py_truediv (real correct_count) (real nstudents)) (\<lambda>ratio3.
         question_loop results nstudents rest
           (qa @ [\<lparr>question_number = question_num, correct_responses = correct_count,
                    incorrect_responses = int nstudents - int correct_count,
                    success_rate = round2 (ratio3 * 100), difficulty = difficulty\<rparr>])))))"

text \<open>\<^verbatim>\<open>max\<close> and \<^verbatim>\<open>min\<close> of an iterable raise on an empty one.\<close>

fun py_max :: "nat list \<Rightarrow> py_error + nat" where
  "py_max [] = Inl (ValueError ''max() arg is an empty sequence'')"
| "py_max (x # xs) = Inr (fold max xs x)"

fun py_min :: "nat list \<Rightarrow> py_error + nat" where
  "py_min [] = Inl (ValueError ''min() arg is an empty sequence'')"
| "py_min (x # xs) = Inr (fold min xs x)"

definition generate_batch_summary :: "result list \<Rightarrow> key_entry list \<Rightarrow> py_error + summary" where
  "generate_batch_summary results answer_key =
     (if results = [] then Inr Empty
      else
        let total_students = length results;
            total_questions = length answer_key;
            total_score = sum_list (map get_score results)
        in on_value (if total_students > 0
                     then py_truediv (real total_score) (real total_students) else Inr 0)
             (\<lambda>average_score.
           on_value (if total_questions > 0
                     then on_value (py_truediv average_score (real total_questions))
                            (\<lambda>q. Inr (q * 100))
                     else Inr 0)
             (\<lambda>average_percentage.
           let grade_distribution = grade_loop results []
           in on_value (question_loop results total_students [0..<total_questions] [])
             (\<lambda>question_analysis.
           on_value (py_max (map get_score results)) (\<lambda>highest.
           on_value (py_min (map get_score results)) (\<lambda>lowest.
           Inr (Summary
             \<lparr>total_students = total_students, total_questions = total_questions,
              average_score = round2 average_score,
              average_percentage = round2 average_percentage,
              highest_score = highest, lowest_score = lowest,
              grade_distribution = grade_distribution,
              question_analysis = question_analysis\<rparr>)))))))"

text \<open>Reading a field of the returned dictionary: the empty one has none.\<close>

fun summary_field :: "(batch_summary \<Rightarrow> 'a) \<Rightarrow> summary \<Rightarrow> 'a option" where
  "summary_field f Empty = None"
| "summary_field f (Summary s) = Some (f s)"

section \<open>Plan Limiter and the batch endpoint\<close>

definition limits :: "(string \<times> nat) list" where
  "limits = [(''free'', 0), (''basic'', 0), (''standard'', 200), (''premium'', 500)]"

text \<open>
  \<^verbatim>\<open>get_mcq_limit\<close> on a string. On any other value \<^verbatim>\<open>plan.lower()\<close> raises; the
  endpoint below carries that branch.
\<close>

definition get_mcq_limit :: "string \<Rightarrow> nat" where
  "get_mcq_limit plan = (case map_of limits (lower plan) of None \<Rightarrow> 0 | Some n \<Rightarrow> n)"

text \<open>
  Lines 96 to 112 over \<^verbatim>\<open>enumerate(student_answers)\<close>. Besides \<^verbatim>\<open>results\<close> the state has
  a log of the student ids with which \<^verbatim>\<open>analyze_single_mcq_sheet\<close> was called; the log
  is not in the source and only records which sheets were scored.
\<close>

definition failed_entry :: "nat \<Rightarrow> py_error \<Rightarrow> key_entry list \<Rightarrow> result" where
  "failed_entry idx e answer_key =
     ErrorEntry (idx + 1)
       (''Failed to analyze sheet '' @ str_nat (idx + 1) @ '': '' @ str_error e)
       0 (length answer_key)"

fun sheet_loop ::
  "key_entry list \<Rightarrow> (nat \<times> json) list \<Rightarrow> result list \<times> nat list \<Rightarrow> result list \<times> nat list" where
  "sheet_loop answer_key [] st = st"
| "sheet_loop answer_key ((idx, student_sheet) # rest) (results, calls) =
     (case analyze_single_mcq_sheet student_sheet answer_key (idx + 1) of
        Inr analysis_result \<Rightarrow>
          sheet_loop answer_key rest (results @ [SheetResult analysis_result], calls @ [idx + 1])
      | Inl e \<Rightarrow>
          sheet_loop answer_key rest (results @ [failed_entry idx e answer_key], calls @ [idx + 1]))"

text \<open>
  The decoded body of \<^verbatim>\<open>POST /analyze-mcq-batch\<close>, a JSON object: a field is \<open>None\<close> when
  the key is not in the body. The answer key, when given, is a JSON array.
\<close>

record batch_request =
  answer_key_id :: "json option"
  student_answers :: "json option"
  answer_key :: "key_entry list option"
  user_plan :: "json option"

text \<open>
  The body of a successful response without \<^verbatim>\<open>analysis_id\<close> and \<^verbatim>\<open>timestamp\<close>, which are
  a fresh UUID and the clock.
\<close>

record batch_response =
  answer_key_id :: json
  total_sheets_analyzed :: nat
  summary :: summary
  individual_results :: "result list"

datatype response = Failure nat string | Success batch_response

definition limit_message :: "string \<Rightarrow> nat \<Rightarrow> nat \<Rightarrow> string" where
  "limit_message plan max_analyses submitted =
     ''Your '' @ plan @ '' plan allows maximum '' @ str_nat max_analyses
       @ '' MCQ analyses. You submitted '' @ str_nat submitted @ ''.''"

text \<open>
  The endpoint returns the response and the log of scored sheets. An exception outside
  the inner \<^verbatim>\<open>try\<close> becomes the 500 response of lines 126 and 127.
\<close>

definition analyze_mcq_batch :: "batch_request \<Rightarrow> response \<times> nat list" where
  "analyze_mcq_batch data =
     (case (batch_request.answer_key_id data, student_answers data) of
        (Some key_id, Some sheets_value) \<Rightarrow>
          (let key = (case answer_key data of None \<Rightarrow> [] | Some k \<Rightarrow> k)
           in if key = [] then (Failure 400 ''Answer key is required'', [])
              else
                (case sheets_value of
                   JList sheets \<Rightarrow>
                     (case (case user_plan data of None \<Rightarrow> JStr ''free'' | Some p \<Rightarrow> p) of
                        JStr plan \<Rightarrow>
                          (let max_analyses = get_mcq_limit plan
                           in if length sheets > max_analyses
                              then (Failure 400
                                      (limit_message plan max_analyses (length sheets)), [])
                              else
                                (case sheet_loop key (enumerate 0 sheets) ([], []) of
                                   (results, calls) \<Rightarrow>
                                     (case generate_batch_summary results key of
                                        Inl e \<Rightarrow> (Failure 500 (str_error e), calls)
                                      | Inr s \<Rightarrow>
                                          (Success
                                             \<lparr>batch_response.answer_key_id = key_id,
                                              total_sheets_analyzed = length results,
                                              summary = s,
                                              individual_results = results\<rparr>, calls))))
                      | v \<Rightarrow>
                          (Failure 500
                             (str_error (no_attribute (type_name v) ''lower'')), []))
                 | _ \<Rightarrow> (Failure 400 ''Student answers must be a list'', [])))
      | _ \<Rightarrow> (Failure 400 ''Answer key ID and student answers are required'', []))"

section \<open>Vocabulary of the properties\<close>

subsection \<open>One question of one sheet\<close>

text \<open>
  The two strings the loop body compares for the pair \<open>(i, k)\<close> of \<^verbatim>\<open>enumerate(answer_key)\<close>,
  extracted in the order of the source, and the three ways the comparison can go.
\<close>

definition answers_at :: "json \<Rightarrow> nat \<times> key_entry \<Rightarrow> py_error + (string \<times> string)" where
  "answers_at sa p =
     (case extract_student_answer sa (fst p) of
        Inl e \<Rightarrow> Inl e
      | Inr s \<Rightarrow> (case extract_correct (snd p) of Inl e \<Rightarrow> Inl e | Inr k \<Rightarrow> Inr (s, k)))"

definition is_blank :: "json \<Rightarrow> nat \<times> key_entry \<Rightarrow> bool" where
  "is_blank sa p = (case answers_at sa p of Inl e \<Rightarrow> False | Inr (s, k) \<Rightarrow> s = '''')"

definition is_correct :: "json \<Rightarrow> nat \<times> key_entry \<Rightarrow> bool" where
  "is_correct sa p =
     (case answers_at sa p of Inl e \<Rightarrow> False | Inr (s, k) \<Rightarrow> s \<noteq> '''' \<and> s = k)"

definition is_wrong :: "json \<Rightarrow> nat \<times> key_entry \<Rightarrow> bool" where
  "is_wrong sa p =
     (case answers_at sa p of Inl e \<Rightarrow> False | Inr (s, k) \<Rightarrow> s \<noteq> '''' \<and> s \<noteq> k)"

definition verdicts_of :: "json \<Rightarrow> nat \<times> key_entry \<Rightarrow> verdict list" where
  "verdicts_of sa p =
     (case answers_at sa p of
        Inl e \<Rightarrow> []
      | Inr (s, k) \<Rightarrow>
          if s = '''' then [unanswered_verdict (fst p + 1) k]
          else if s = k then []
          else [incorrect_verdict (fst p + 1) s k])"

text \<open>
  What the student wrote for the question at position \<open>i\<close> and what the key says, before
  any change of case; \<open>None\<close> when there is no such string.
\<close>

fun submitted_answer :: "json \<Rightarrow> nat \<Rightarrow> string option" where
  "submitted_answer (JDict d) i =
     (case map_of d (str_nat (i + 1)) of Some (JStr s) \<Rightarrow> Some s | _ \<Rightarrow> None)"
| "submitted_answer (JList xs) i =
     (if i < length xs then (case xs ! i of JStr s \<Rightarrow> Some s | _ \<Rightarrow> None) else None)"
| "submitted_answer (JStr s) i = (if i < length s then Some [s ! i] else None)"
| "submitted_answer v i = None"

fun key_answer :: "key_entry \<Rightarrow> string option" where
  "key_answer (KDict d) =
     (case map_of d ''correct_answer'' of Some (JStr s) \<Rightarrow> Some s | _ \<Rightarrow> None)"
| "key_answer (KStr s) = Some s"
| "key_answer (KInt n) = Some (str_int n)"
| "key_answer (KBool b) = Some (if b then ''True'' else ''False'')"
| "key_answer KNone = Some ''None''"

text \<open>Two strings match case-insensitively when they agree after folding to lower case.\<close>

definition matches_ignoring_case :: "string \<Rightarrow> string \<Rightarrow> bool" where
  "matches_ignoring_case a b \<longleftrightarrow> lower a = lower b"


text \<open>
  Every answer of the sheet matches the correct answer of its question, ignoring case,
  and, for the amended statement, none of the answers is the empty string.
\<close>

definition all_answers_match :: "json \<Rightarrow> key_entry list \<Rightarrow> bool" where
  "all_answers_match sa key \<longleftrightarrow>
     (\<forall>i \<in> {0..<length key}.
        case (submitted_answer sa i, key_answer (key ! i)) of
          (Some a, Some c) \<Rightarrow> matches_ignoring_case a c
        | _ \<Rightarrow> False)"

definition no_empty_answer :: "json \<Rightarrow> key_entry list \<Rightarrow> bool" where
  "no_empty_answer sa key \<longleftrightarrow> (\<forall>i \<in> {0..<length key}. submitted_answer sa i \<noteq> Some '''')"

subsection \<open>The batch summary\<close>

text \<open>
  The entry of \<^verbatim>\<open>question_analysis\<close> for question index \<open>i\<close> as the specification words it:
  the correct responses are the results whose score exceeds \<open>i\<close>.
\<close>

definition position_proxy_stat :: "result list \<Rightarrow> nat \<Rightarrow> question_stat" where
  "position_proxy_stat results i =
     (let n = length results;
          c = length (filter (\<lambda>r. i < get_score r) results);
          rate = real c / real n
      in \<lparr>question_number = i + 1, correct_responses = c,
          incorrect_responses = int n - int c,
          success_rate = round2 (rate * 100),
          difficulty = (if rate > 0.8 then ''Easy'' else if rate > 0.5 then ''Medium''
                        else ''Hard'')\<rparr>)"

text \<open>
  A result has a grade when it is a sheet result with that grade; an error entry has no
  grade field.
\<close>

fun has_grade :: "result \<Rightarrow> string \<Rightarrow> bool" where
  "has_grade (SheetResult r) g = (grade r = g)"
| "has_grade (ErrorEntry sid err sc tq) g = False"

fun is_error_entry :: "result \<Rightarrow> bool" where
  "is_error_entry (SheetResult r) = False"
| "is_error_entry (ErrorEntry sid err sc tq) = True"

subsection \<open>The batch endpoint\<close>

text \<open>
  The plan limit as the specification words it: the entry of the table whose plan name
  matches the given plan case-insensitively, and 0 when no name matches.
\<close>

definition table_limit :: "string \<Rightarrow> nat" where
  "table_limit plan =
     (case find (\<lambda>(name, n). matches_ignoring_case plan name) limits of
        None \<Rightarrow> 0
      | Some (name, n) \<Rightarrow> n)"



section \<open>Rounding to two decimals\<close>

text \<open>
  \<^const>\<open>round2\<close> yields a multiple of 0.01 that is nearest to its argument; only at a tie
  does the choice of the even neighbour matter.
\<close>

lemma round_half_even_nearest: "\<bar>real_of_int (round_half_even x) - x\<bar> \<le> 1 / 2"
proof -
  have "real_of_int \<lfloor>x\<rfloor> \<le> x" and "x < real_of_int \<lfloor>x\<rfloor> + 1" by linarith+
  then show ?thesis
    by (auto simp: round_half_even_def Let_def)
qed

lemma round2_nearest:
  "round2 x * 100 = real_of_int (round_half_even (x * 100)) \<and> \<bar>round2 x - x\<bar> \<le> 1 / 200"
proof -
  have "\<bar>real_of_int (round_half_even (x * 100)) - x * 100\<bar> \<le> 1 / 2"
    by (rule round_half_even_nearest)
  then show ?thesis by (simp add: round2_def abs_le_iff field_simps)
qed

section \<open>Properties of the Grade Calculator\<close>

text \<open>
  C3. \<^const>\<open>calculate_grade\<close> is defined for every real percentage, negative ones and
  those above 100 included, and is the grade of the first of the descending thresholds
  90, 85, 80, 75, 70, 65, 60, 55, 50, 45 that the percentage reaches, F when it reaches
  none. In particular 90 gives A+, 89.9 gives A and 44.9 gives F.
\<close>

theorem calculate_grade_thresholds:
  "calculate_grade p = first_reached grade_thresholds p
   \<and> calculate_grade 90 = ''A+'' \<and> calculate_grade 89.9 = ''A'' \<and> calculate_grade 44.9 = ''F''
   \<and> calculate_grade (- 3) = ''F'' \<and> calculate_grade 250 = ''A+''"
  by (simp add: calculate_grade_def grade_thresholds_def)

section \<open>Properties of the Sheet Scorer\<close>

subsection \<open>Upper and lower case\<close>

lemma lower_upper_char: "lower_char (upper_char c) = lower_char c"
  by (cases "c \<in> set ascii_lowercase")
     (auto simp: upper_char_def lower_char_def ascii_lowercase_def ascii_uppercase_def
           split: option.splits)

lemma upper_lower_char: "upper_char (lower_char c) = upper_char c"
  by (cases "c \<in> set ascii_uppercase")
     (auto simp: upper_char_def lower_char_def ascii_lowercase_def ascii_uppercase_def
           split: option.splits)

lemma upper_eq_iff_lower_eq: "upper s = upper t \<longleftrightarrow> lower s = lower t"
proof
  assume "upper s = upper t"
  then have "map lower_char (upper s) = map lower_char (upper t)" by simp
  then show "lower s = lower t" by (simp add: upper_def lower_def lower_upper_char comp_def)
next
  assume "lower s = lower t"
  then have "map upper_char (lower s) = map upper_char (lower t)" by simp
  then show "upper s = upper t" by (simp add: upper_def lower_def upper_lower_char comp_def)
qed

lemma upper_Nil_iff: "upper s = [] \<longleftrightarrow> s = []"
  by (simp add: upper_def)

subsection \<open>The scoring loop in closed form\<close>

text \<open>
  When both strings can be extracted for every question, the loop adds to each counter
  the number of questions of its kind and appends the verdicts in the order of the key.
\<close>

lemma score_loop_closed:
  "\<forall>p \<in> set ps. \<exists>s k. answers_at sa p = Inr (s, k) \<Longrightarrow>
   score_loop sa ps (c, w, u, ms) =
     Inr (c + length (filter (is_correct sa) ps), w + length (filter (is_wrong sa) ps),
          u + length (filter (is_blank sa) ps), ms @ concat (map (verdicts_of sa) ps))"
proof (induction ps arbitrary: c w u ms)
  case Nil
  then show ?case by simp
next
  case (Cons p ps)
  obtain i k where p: "p = (i, k)" by (cases p)
  from Cons.prems obtain s co where a: "answers_at sa (i, k) = Inr (s, co)"
    unfolding p by auto
  then have es: "extract_student_answer sa i = Inr s" and ec: "extract_correct k = Inr co"
    by (auto simp: answers_at_def split: sum.splits)
  have rest: "\<forall>p \<in> set ps. \<exists>s k. answers_at sa p = Inr (s, k)"
    using Cons.prems by simp
  show ?case
    unfolding p
    by (simp add: es ec Cons.IH [OF rest] a is_correct_def is_wrong_def is_blank_def
          verdicts_of_def)
qed

text \<open>The loop ends without an exception only if every extraction went through.\<close>

lemma score_loop_succeeds:
  "score_loop sa ps acc = Inr r \<Longrightarrow> \<forall>p \<in> set ps. \<exists>s k. answers_at sa p = Inr (s, k)"
proof (induction ps arbitrary: acc)
  case Nil
  then show ?case by simp
next
  case (Cons p ps)
  obtain i k where p: "p = (i, k)" by (cases p)
  obtain c w u ms where acc: "acc = (c, w, u, ms)" by (cases acc)
  from Cons.prems obtain s co where es: "extract_student_answer sa i = Inr s"
    and ec: "extract_correct k = Inr co"
    unfolding p acc by (auto split: sum.splits)
  from Cons.prems obtain acc' where "score_loop sa ps acc' = Inr r"
    unfolding p acc by (auto simp: es ec split: if_splits)
  then have "\<forall>p \<in> set ps. \<exists>s k. answers_at sa p = Inr (s, k)"
    by (rule Cons.IH)
  moreover have "answers_at sa p = Inr (s, co)"
    by (simp add: p answers_at_def es ec)
  ultimately show ?case by simp
qed

lemma map_fst_filter_enumerate:
  "map fst (filter P (enumerate 0 xs)) = filter (\<lambda>i. P (i, xs ! i)) [0..<length xs]"
proof (induction xs rule: rev_induct)
  case Nil
  then show ?case by simp
next
  case (snoc x xs)
  have "filter (\<lambda>i. P (i, (xs @ [x]) ! i)) [0..<length xs] =
        filter (\<lambda>i. P (i, xs ! i)) [0..<length xs]"
    by (rule filter_cong) (auto simp: nth_append)
  then show ?case
    using snoc.IH by (simp add: enumerate_append_eq)
qed

lemma outcome_partition:
  "\<forall>p \<in> set ps. \<exists>s k. answers_at sa p = Inr (s, k) \<Longrightarrow>
   length (filter (is_correct sa) ps) + length (filter (is_wrong sa) ps)
     + length (filter (is_blank sa) ps) = length ps"
  by (induction ps) (auto simp: is_correct_def is_wrong_def is_blank_def)

lemma length_verdicts:
  "length (concat (map (verdicts_of sa) ps)) =
     length (filter (is_wrong sa) ps) + length (filter (is_blank sa) ps)"
  by (induction ps) (auto simp: is_wrong_def is_blank_def verdicts_of_def split: sum.splits)

lemma numbers_of_verdicts:
  "\<forall>p \<in> set ps. \<exists>s k. answers_at sa p = Inr (s, k) \<Longrightarrow>
   map verdict.question_number (concat (map (verdicts_of sa) ps)) =
     map (\<lambda>p. fst p + 1) (filter (\<lambda>p. \<not> is_correct sa p) ps)"
  by (induction ps)
     (auto simp: is_correct_def verdicts_of_def unanswered_verdict_def incorrect_verdict_def)

lemma analyze_result:
  assumes "analyze_single_mcq_sheet sa key sid = Inr r"
  shows "\<forall>p \<in> set (enumerate 0 key). \<exists>s k. answers_at sa p = Inr (s, k)"
    and "correct_answers r = length (filter (is_correct sa) (enumerate 0 key))"
    and "wrong_answers r = length (filter (is_wrong sa) (enumerate 0 key))"
    and "unanswered r = length (filter (is_blank sa) (enumerate 0 key))"
    and "mistakes r = concat (map (verdicts_of sa) (enumerate 0 key))"
    and "score r = correct_answers r"
    and "sheet_result.total_questions r = length key"
    and "student_id r = sid"
proof -
  from assms obtain acc where loop: "score_loop sa (enumerate 0 key) (0, 0, 0, []) = Inr acc"
    by (auto simp: analyze_single_mcq_sheet_def split: sum.splits)
  then show ok: "\<forall>p \<in> set (enumerate 0 key). \<exists>s k. answers_at sa p = Inr (s, k)"
    by (rule score_loop_succeeds)
  note closed = score_loop_closed [OF ok, of 0 0 0 "[]"]
  from assms show "correct_answers r = length (filter (is_correct sa) (enumerate 0 key))"
    and "wrong_answers r = length (filter (is_wrong sa) (enumerate 0 key))"
    and "unanswered r = length (filter (is_blank sa) (enumerate 0 key))"
    and "mistakes r = concat (map (verdicts_of sa) (enumerate 0 key))"
    and "score r = correct_answers r"
    and "sheet_result.total_questions r = length key"
    and "student_id r = sid"
    by (auto simp: analyze_single_mcq_sheet_def closed Let_def)
qed

text \<open>
  C10. On every answer key and sheet for which \<^const>\<open>analyze_single_mcq_sheet\<close> returns a
  result, the three counters add up to \<^verbatim>\<open>total_questions\<close>, which is the length of the key,
  the score is the number of correct answers, and \<^verbatim>\<open>mistakes\<close> has one entry for each
  question that was not answered correctly and no other, in ascending order of question
  number.
\<close>

theorem sheet_result_invariant:
  assumes "analyze_single_mcq_sheet sa key sid = Inr r"
  shows "correct_answers r + wrong_answers r + unanswered r = sheet_result.total_questions r
    \<and> sheet_result.total_questions r = length key
    \<and> score r = correct_answers r
    \<and> length (mistakes r) = wrong_answers r + unanswered r
    \<and> map verdict.question_number (mistakes r) =
        map Suc (filter (\<lambda>i. \<not> is_correct sa (i, key ! i)) [0..<length key])
    \<and> sorted_wrt (<) (map verdict.question_number (mistakes r))"
proof -
  note r = analyze_result [OF assms]
  have nums: "map verdict.question_number (mistakes r) =
        map Suc (filter (\<lambda>i. \<not> is_correct sa (i, key ! i)) [0..<length key])"
  proof -
    have "map verdict.question_number (mistakes r) =
        map Suc (map fst (filter (\<lambda>p. \<not> is_correct sa p) (enumerate 0 key)))"
      by (simp add: r(5) numbers_of_verdicts [OF r(1)] comp_def)
    then show ?thesis by (simp only: map_fst_filter_enumerate)
  qed
  have "sorted_wrt (<) (map Suc (filter (\<lambda>i. \<not> is_correct sa (i, key ! i)) [0..<length key]))"
    by (simp add: sorted_wrt_map sorted_wrt_filter)
  with nums have "sorted_wrt (<) (map verdict.question_number (mistakes r))" by simp
  moreover have "correct_answers r + wrong_answers r + unanswered r = length key"
    using outcome_partition [OF r(1)] by (simp add: r(2,3,4))
  moreover have "length (mistakes r) = wrong_answers r + unanswered r"
    by (simp add: r(3,4,5) length_verdicts)
  ultimately show ?thesis using nums r(6,7) by simp
qed

lemma example_sheet:
  "analyze_single_mcq_sheet (JList [JStr ''a'', JStr ''C'', JStr ''''])
       [KStr ''A'', KStr ''B'', KStr ''C''] 7 =
     Inr \<lparr>student_id = 7, score = 1, sheet_result.total_questions = 3, score_percentage = 33.33,
          correct_answers = 1, wrong_answers = 1, unanswered = 1,
          mistakes = [incorrect_verdict 2 ''C'' ''B'', unanswered_verdict 3 ''C''],
          grade = ''F''\<rparr>"
  by code_simp

theorem sheet_result_invariant_witness:
  "\<exists>r. analyze_single_mcq_sheet (JList [JStr ''a'', JStr ''C'', JStr ''''])
         [KStr ''A'', KStr ''B'', KStr ''C''] 7 = Inr r
     \<and> correct_answers r + wrong_answers r + unanswered r = 3
     \<and> score r = correct_answers r
     \<and> length (mistakes r) = wrong_answers r + unanswered r
     \<and> map verdict.question_number (mistakes r) = [2, 3]"
proof -
  obtain r where e: "analyze_single_mcq_sheet (JList [JStr ''a'', JStr ''C'', JStr ''''])
         [KStr ''A'', KStr ''B'', KStr ''C''] 7 = Inr r"
    using example_sheet by blast
  have "map verdict.question_number (mistakes r) = [2, 3]"
    using e by (auto simp: example_sheet unanswered_verdict_def incorrect_verdict_def)
  with sheet_result_invariant [OF e] e show ?thesis by auto
qed

subsection \<open>A sheet whose answers all match\<close>


lemma submitted_extract:
  "submitted_answer sa i = Some a \<Longrightarrow> extract_student_answer sa i = Inr (upper a)"
  by (cases sa) (auto split: option.splits json.splits if_splits)

lemma key_answer_extract:
  "key_answer k = Some c \<Longrightarrow> extract_correct k = Inr (upper c)"
  by (cases k) (auto split: option.splits json.splits if_splits)

lemma round2_100: "round2 100 = 100"
  by (simp add: round2_def round_half_even_def)

lemma enumerate_member:
  "p \<in> set (enumerate 0 xs) \<Longrightarrow> fst p < length xs \<and> snd p = xs ! fst p"
  by (auto simp: in_set_enumerate_eq)

lemma all_correct:
  assumes m: "all_answers_match sa key" and ne: "no_empty_answer sa key"
  shows "\<forall>p \<in> set (enumerate 0 key). is_correct sa p"
proof
  fix p assume "p \<in> set (enumerate 0 key)"
  then have i: "fst p < length key" and k: "snd p = key ! fst p"
    using enumerate_member by blast+
  from m i have "case (submitted_answer sa (fst p), key_answer (key ! fst p)) of
          (Some a, Some c) \<Rightarrow> matches_ignoring_case a c | _ \<Rightarrow> False"
    unfolding all_answers_match_def by simp
  then obtain a c where a: "submitted_answer sa (fst p) = Some a"
    and c: "key_answer (key ! fst p) = Some c" and ac: "lower a = lower c"
    by (cases "submitted_answer sa (fst p)"; cases "key_answer (key ! fst p)")
       (simp_all add: matches_ignoring_case_def)
  from ne i a have "a \<noteq> ''''" by (auto simp: no_empty_answer_def)
  then have "upper a \<noteq> ''''" by (simp add: upper_Nil_iff)
  moreover have "upper a = upper c" using ac by (simp add: upper_eq_iff_lower_eq)
  ultimately show "is_correct sa p"
    by (simp add: k is_correct_def answers_at_def submitted_extract [OF a]
          key_answer_extract [OF c])
qed

lemma correct_excludes:
  "is_correct sa p \<Longrightarrow>
     \<not> is_wrong sa p \<and> \<not> is_blank sa p \<and> (\<exists>s k. answers_at sa p = Inr (s, k))"
  by (auto simp: is_correct_def is_wrong_def is_blank_def split: sum.splits)

text \<open>
  C1, as stated: for every key of length N and every sheet whose N answers all match the
  correct answers case-insensitively, the result has score N, no wrong and no unanswered
  question and a percentage of 100. This fails in two ways. For the empty key the
  percentage is 0, by the guard on \<^verbatim>\<open>total_questions\<close>. And an empty answer that matches
  an empty correct answer is counted as unanswered, because the test for an empty answer
  comes before the comparison.
\<close>

theorem all_matching_counterexample:
  "all_answers_match (JList []) []
   \<and> map_sum id score_percentage (analyze_single_mcq_sheet (JList []) [] 1) = Inr 0
   \<and> all_answers_match (JList [JStr '''']) [KStr '''']
   \<and> map_sum id unanswered (analyze_single_mcq_sheet (JList [JStr '''']) [KStr ''''] 1) = Inr 1
   \<and> map_sum id score (analyze_single_mcq_sheet (JList [JStr '''']) [KStr ''''] 1) = Inr 0"
proof -
  have "all_answers_match (JList []) []"
    by (simp add: all_answers_match_def)
  moreover have "map_sum id score_percentage (analyze_single_mcq_sheet (JList []) [] 1) = Inr 0"
    by code_simp
  moreover have "all_answers_match (JList [JStr '''']) [KStr '''']"
    by (simp add: all_answers_match_def matches_ignoring_case_def)
  moreover have
    "map_sum id unanswered (analyze_single_mcq_sheet (JList [JStr '''']) [KStr ''''] 1) = Inr 1"
    by code_simp
  moreover have
    "map_sum id score (analyze_single_mcq_sheet (JList [JStr '''']) [KStr ''''] 1) = Inr 0"
    by code_simp
  ultimately show ?thesis by blast
qed

text \<open>
  C1, amended: for every non-empty key of length N and every sheet whose N answers are
  all non-empty and match the correct answers case-insensitively, the scorer returns a
  result with score N, no wrong and no unanswered question and a percentage of 100.
\<close>

theorem all_matching_full_score:
  assumes "all_answers_match sa key" and "no_empty_answer sa key" and "key \<noteq> []"
  shows "\<exists>r. analyze_single_mcq_sheet sa key sid = Inr r
     \<and> score r = length key \<and> wrong_answers r = 0 \<and> unanswered r = 0
     \<and> score_percentage r = 100"
proof -
  let ?ps = "enumerate 0 key"
  have c: "\<forall>p \<in> set ?ps. is_correct sa p"
    using assms(1,2) by (rule all_correct)
  then have ok: "\<forall>p \<in> set ?ps. \<exists>s k. answers_at sa p = Inr (s, k)"
    using correct_excludes by blast
  have fc: "filter (is_correct sa) ?ps = ?ps"
    using c by (simp add: filter_id_conv)
  have fw: "filter (is_wrong sa) ?ps = []"
    using c correct_excludes by (auto simp: filter_empty_conv)
  have fb: "filter (is_blank sa) ?ps = []"
    using c correct_excludes by (auto simp: filter_empty_conv)
  have n: "real (length key) \<noteq> 0" using assms(3) by simp
  show ?thesis
    using assms(3) n
    by (simp add: analyze_single_mcq_sheet_def score_loop_closed [OF ok] fc fw fb round2_100
          Let_def)
qed

theorem all_matching_full_score_witness:
  "all_answers_match (JDict [(''1'', JStr ''b''), (''2'', JStr ''D'')])
      [KStr ''B'', KDict [(''correct_answer'', JStr ''d'')]]
   \<and> no_empty_answer (JDict [(''1'', JStr ''b''), (''2'', JStr ''D'')])
      [KStr ''B'', KDict [(''correct_answer'', JStr ''d'')]]
   \<and> (\<exists>r. analyze_single_mcq_sheet (JDict [(''1'', JStr ''b''), (''2'', JStr ''D'')])
            [KStr ''B'', KDict [(''correct_answer'', JStr ''d'')]] 3 = Inr r
        \<and> score r = 2 \<and> wrong_answers r = 0 \<and> unanswered r = 0 \<and> score_percentage r = 100)"
proof -
  let ?sa = "JDict [(''1'', JStr ''b''), (''2'', JStr ''D'')]"
  let ?key = "[KStr ''B'', KDict [(''correct_answer'', JStr ''d'')]]"
  have m: "all_answers_match ?sa ?key"
    by (simp add: all_answers_match_def matches_ignoring_case_def lower_def lower_char_def
          ascii_lowercase_def ascii_uppercase_def str_nat.simps digit_char_def
          atLeast0_lessThan_Suc)
  have ne: "no_empty_answer ?sa ?key"
    by (simp add: no_empty_answer_def str_nat.simps digit_char_def atLeast0_lessThan_Suc)
  have k: "?key \<noteq> []" by simp
  from all_matching_full_score [OF m ne k, of 3] m ne show ?thesis
    by (simp add: numeral_2_eq_2)
qed

subsection \<open>Empty and missing answers\<close>








section \<open>Properties of the Batch Aggregator\<close>

lemma count_loop_eq:
  "count_loop rs i c = c + length (filter (\<lambda>r. i < get_score r) rs)"
  by (induction rs arbitrary: c) auto

lemma question_loop_closed:
  "rs \<noteq> [] \<Longrightarrow>
   question_loop rs (length rs) js qa = Inr (qa @ map (position_proxy_stat rs) js)"
proof (induction js arbitrary: qa)
  case Nil
  then show ?case by simp
next
  case (Cons j js)
  from Cons.prems have n: "real (length rs) \<noteq> 0" by simp
  show ?case
    using Cons.prems
    by (simp add: Cons.IH [OF Cons.prems] n on_value_def py_truediv_def count_loop_eq
          position_proxy_stat_def Let_def)
qed

lemma py_max_eq: "xs \<noteq> [] \<Longrightarrow> py_max xs = Inr (Max (set xs))"
  by (cases xs) (simp_all only: py_max.simps Max.set_eq_fold, simp)

lemma py_min_eq: "xs \<noteq> [] \<Longrightarrow> py_min xs = Inr (Min (set xs))"
  by (cases xs) (simp_all only: py_min.simps Min.set_eq_fold, simp)

lemma generate_batch_summary_closed:
  assumes "rs \<noteq> []"
  shows "generate_batch_summary rs key =
    Inr (Summary
      \<lparr>total_students = length rs, total_questions = length key,
       average_score = round2 (real (sum_list (map get_score rs)) / real (length rs)),
       average_percentage =
         round2 (if length key > 0
                 then real (sum_list (map get_score rs)) / real (length rs) / real (length key) * 100
                 else 0),
       highest_score = Max (set (map get_score rs)),
       lowest_score = Min (set (map get_score rs)),
       grade_distribution = grade_loop rs [],
       question_analysis = map (position_proxy_stat rs) [0..<length key]\<rparr>)"
proof -
  from assms have n: "real (length rs) \<noteq> 0" and m: "map get_score rs \<noteq> []" by simp_all
  show ?thesis
    using assms n
    by (simp add: generate_batch_summary_def on_value_def py_truediv_def Let_def
          question_loop_closed py_max_eq [OF m] py_min_eq [OF m])
qed

lemma grade_loop_lookup:
  "map_of (grade_loop rs gd) g =
     (let c = length (filter (\<lambda>r. get_grade r = g) rs)
      in if c = 0 then map_of gd g
         else Some (c + (case map_of gd g of None \<Rightarrow> 0 | Some n \<Rightarrow> n)))"
proof (induction rs arbitrary: gd)
  case Nil
  then show ?case by simp
next
  case (Cons r rs)
  show ?case
    by (simp add: Cons.IH update_conv' Let_def split: option.splits)
qed

lemma grade_loop_distinct:
  "distinct (map fst gd) \<Longrightarrow> distinct (map fst (grade_loop rs gd))"
  by (induction rs arbitrary: gd) (simp_all add: distinct_update Let_def)

lemma get_grade_count:
  "length (filter (\<lambda>r. get_grade r = g) rs) =
     length (filter (\<lambda>r. has_grade r g) rs)
       + (if g = ''F'' then length (filter is_error_entry rs) else 0)"
proof (induction rs)
  case Nil
  then show ?case by simp
next
  case (Cons r rs)
  then show ?case by (cases r) auto
qed






text \<open>
  C6, as stated: \<^verbatim>\<open>grade_distribution\<close> maps each grade to the number of results that
  have it, and only grades that some result has are keys. An error entry has no grade,
  yet \<^verbatim>\<open>result.get('grade', 'F')\<close> counts it under F: a batch whose only sheet failed has
  the distribution \<^verbatim>\<open>{'F': 1}\<close>.
\<close>

theorem grade_distribution_counterexample:
  "\<not> has_grade (failed_entry 0 (no_len ''NoneType'') [KStr ''A'']) ''F''
   \<and> map_sum id (summary_field grade_distribution)
       (generate_batch_summary [failed_entry 0 (no_len ''NoneType'') [KStr ''A'']] [KStr ''A''])
     = Inr (Some [(''F'', 1)])"
proof -
  have ne: "[failed_entry 0 (no_len ''NoneType'') [KStr ''A'']] \<noteq> []" by simp
  show ?thesis
    by (simp add: generate_batch_summary_closed [OF ne]) (simp add: failed_entry_def)
qed

text \<open>
  C6, amended: for every non-empty list of results \<^verbatim>\<open>grade_distribution\<close> maps each
  grade to the number of results that have it, where for F the error entries, which have
  no grade, are counted as well; a grade is a key, and then only once, exactly when that
  count is not zero.
\<close>

theorem grade_distribution_counts:
  assumes "results \<noteq> []"
  shows "\<exists>s. generate_batch_summary results key = Inr (Summary s)
     \<and> distinct (map fst (grade_distribution s))
     \<and> (\<forall>g. map_of (grade_distribution s) g =
          (let c = length (filter (\<lambda>r. has_grade r g) results)
                   + (if g = ''F'' then length (filter is_error_entry results) else 0)
           in if c = 0 then None else Some c))"
proof -
  have "distinct (map fst (grade_loop results []))"
    by (rule grade_loop_distinct) simp
  moreover have "map_of (grade_loop results []) g =
          (let c = length (filter (\<lambda>r. has_grade r g) results)
                   + (if g = ''F'' then length (filter is_error_entry results) else 0)
           in if c = 0 then None else Some c)" for g
    by (simp only: grade_loop_lookup get_grade_count) (simp add: Let_def)
  ultimately show ?thesis
    by (simp add: generate_batch_summary_closed [OF assms])
qed

text \<open>
  C7, as stated, ends with: without results the \<^verbatim>\<open>average_score\<close> is 0. The function
  returns the empty dictionary before it computes anything, so the summary has no
  \<^verbatim>\<open>average_score\<close> at all.
\<close>

theorem empty_batch_counterexample:
  "map_sum id (summary_field average_score) (generate_batch_summary [] []) = Inr None
   \<and> map_sum id (summary_field average_score) (generate_batch_summary [] [KStr ''A'']) = Inr None"
  by (simp add: generate_batch_summary_def)

text \<open>
  C7, amended: on the empty list of results \<^const>\<open>generate_batch_summary\<close> returns the
  empty summary, which has no field, and raises nothing; and on no list of results and no
  key does it raise, so no division by zero happens, neither by the number of students
  nor by the number of questions.
\<close>

theorem empty_batch_summary:
  "generate_batch_summary [] key = Inr Empty
   \<and> (\<exists>s. generate_batch_summary results key = Inr s)"
proof -
  have "\<exists>s. generate_batch_summary results key = Inr s"
  proof (cases "results = []")
    case True
    then show ?thesis by (simp add: generate_batch_summary_def)
  next
    case False
    then show ?thesis by (simp add: generate_batch_summary_closed)
  qed
  then show ?thesis by (simp add: generate_batch_summary_def)
qed

theorem grade_distribution_counts_witness:
  "\<exists>s. generate_batch_summary
         [ErrorEntry 1 ''Failed'' 0 2,
          SheetResult \<lparr>student_id = 2, score = 2, sheet_result.total_questions = 2,
            score_percentage = 100, correct_answers = 2, wrong_answers = 0, unanswered = 0,
            mistakes = [], grade = ''A+''\<rparr>]
         [KStr ''A'', KStr ''B''] = Inr (Summary s)
     \<and> map_of (grade_distribution s) ''F'' = Some 1
     \<and> map_of (grade_distribution s) ''A+'' = Some 1
     \<and> map_of (grade_distribution s) ''B'' = None"
proof -
  let ?rs = "[ErrorEntry 1 ''Failed'' 0 2,
          SheetResult \<lparr>student_id = 2, score = 2, sheet_result.total_questions = 2,
            score_percentage = 100, correct_answers = 2, wrong_answers = 0, unanswered = 0,
            mistakes = [], grade = ''A+''\<rparr>]"
  have ne: "?rs \<noteq> []" by simp
  from grade_distribution_counts [OF ne, of "[KStr ''A'', KStr ''B'']"]
  obtain s where e: "generate_batch_summary ?rs [KStr ''A'', KStr ''B''] = Inr (Summary s)"
    and g: "\<forall>g. map_of (grade_distribution s) g =
          (let c = length (filter (\<lambda>r. has_grade r g) ?rs)
                   + (if g = ''F'' then length (filter is_error_entry ?rs) else 0)
           in if c = 0 then None else Some c)"
    by blast
  have "map_of (grade_distribution s) ''F'' = Some 1"
    by (simp add: g)
  moreover have "map_of (grade_distribution s) ''A+'' = Some 1"
    by (simp add: g)
  moreover have "map_of (grade_distribution s) ''B'' = None"
    by (simp add: g)
  ultimately show ?thesis using e by blast
qed

section \<open>Properties of the Plan Limiter and the batch endpoint\<close>

lemma get_mcq_limit_table: "get_mcq_limit plan = table_limit plan"
  by (simp add: get_mcq_limit_def table_limit_def limits_def matches_ignoring_case_def
        lower_def lower_char_def ascii_lowercase_def ascii_uppercase_def)

lemma limit_examples:
  "get_mcq_limit ''PREMIUM'' = 500 \<and> get_mcq_limit ''unknown'' = 0
   \<and> get_mcq_limit ''Standard'' = 200 \<and> get_mcq_limit ''free'' = 0 \<and> get_mcq_limit ''basic'' = 0"
  by (simp add: get_mcq_limit_def limits_def lower_def lower_char_def ascii_lowercase_def
        ascii_uppercase_def)



text \<open>
  C8, amended: for every batch request with the plan string \<open>p\<close> and \<open>n\<close> sheets, where
  the limit of \<open>p\<close> is the case-insensitive lookup in the table free 0, basic 0,
  standard 200, premium 500 with 0 for an unknown plan (500 for PREMIUM, 0 for unknown):
  if \<open>n\<close> exceeds the limit, the endpoint answers with status 400 and scores no sheet;
  and when the request has an answer key id and a non-empty answer key, the message of
  that answer names the plan, the limit and \<open>n\<close>.
\<close>

theorem over_limit_rejected:
  assumes "student_answers data = Some (JList sheets)"
    and "user_plan data = Some (JStr p)"
    and "length sheets > get_mcq_limit p"
  shows "(\<exists>msg. fst (analyze_mcq_batch data) = Failure 400 msg)
    \<and> snd (analyze_mcq_batch data) = []
    \<and> (batch_request.answer_key_id data \<noteq> None \<and> answer_key data \<noteq> None
         \<and> answer_key data \<noteq> Some [] \<longrightarrow>
       fst (analyze_mcq_batch data) =
         Failure 400 (''Your '' @ p @ '' plan allows maximum '' @ str_nat (get_mcq_limit p)
            @ '' MCQ analyses. You submitted '' @ str_nat (length sheets) @ ''.''))
    \<and> get_mcq_limit p = table_limit p
    \<and> get_mcq_limit ''PREMIUM'' = 500 \<and> get_mcq_limit ''unknown'' = 0"
  using assms limit_examples
  by (auto simp: analyze_mcq_batch_def limit_message_def get_mcq_limit_table Let_def
           split: option.splits)

text \<open>
  C8, as stated, promises the limit and the number of sheets in the payload of every
  request over the limit. The checks of the required fields and of the answer key come
  first: one sheet on the free plan (limit 0) with an empty answer key, or without an
  answer key id, is answered with 400 and the message of that earlier check.
\<close>

theorem over_limit_counterexample:
  "get_mcq_limit ''free'' = 0
   \<and> analyze_mcq_batch
        \<lparr>batch_request.answer_key_id = Some (JStr ''key-1''),
         student_answers = Some (JList [JStr ''A'']),
         answer_key = Some [], user_plan = Some (JStr ''free'')\<rparr>
       = (Failure 400 ''Answer key is required'', [])
   \<and> analyze_mcq_batch
        \<lparr>batch_request.answer_key_id = None,
         student_answers = Some (JList [JStr ''A'']),
         answer_key = Some [KStr ''A''], user_plan = Some (JStr ''free'')\<rparr>
       = (Failure 400 ''Answer key ID and student answers are required'', [])"
  using limit_examples by (simp add: analyze_mcq_batch_def)

theorem over_limit_rejected_witness:
  "length [JStr ''A'', JStr ''B''] > get_mcq_limit ''Basic''
   \<and> analyze_mcq_batch
        \<lparr>batch_request.answer_key_id = Some (JStr ''key-1''),
         student_answers = Some (JList [JStr ''A'', JStr ''B'']),
         answer_key = Some [KStr ''A''], user_plan = Some (JStr ''Basic'')\<rparr>
       = (Failure 400 ''Your Basic plan allows maximum 0 MCQ analyses. You submitted 2.'', [])"
proof -
  let ?data = "\<lparr>batch_request.answer_key_id = Some (JStr ''key-1''),
         student_answers = Some (JList [JStr ''A'', JStr ''B'']),
         answer_key = Some [KStr ''A''], user_plan = Some (JStr ''Basic'')\<rparr>"
  have l: "get_mcq_limit ''Basic'' = 0"
    by (simp add: get_mcq_limit_def limits_def lower_def lower_char_def ascii_lowercase_def
        ascii_uppercase_def)
  have a: "student_answers ?data = Some (JList [JStr ''A'', JStr ''B''])" by simp
  have b: "user_plan ?data = Some (JStr ''Basic'')" by simp
  have c: "length [JStr ''A'', JStr ''B''] > get_mcq_limit ''Basic''" by (simp add: l)
  from over_limit_rejected [OF a b c] c show ?thesis
    by (simp add: l str_nat.simps digit_char_def prod_eq_iff)
qed

lemma nth_map_enumerate:
  "j < length xs \<Longrightarrow> map f (enumerate 0 xs) ! j = f (j, xs ! j)"
  by (simp add: nth_enumerate_eq)






end
